theory Spec2Isabelle
  imports Main
begin

section \<open>The keydown interceptor of \<^verbatim>\<open>src/main.ts\<close>\<close>

subsection \<open>Events and views\<close>

text \<open>
  The handler reads four properties of the DOM \<^verbatim>\<open>KeyboardEvent\<close> (\<^verbatim>\<open>key\<close>,
  \<^verbatim>\<open>ctrlKey\<close>, \<^verbatim>\<open>metaKey\<close>, \<^verbatim>\<open>altKey\<close>) and calls two of its methods.
  The record holds the properties; the method calls are recorded, in the order they are
  made, as a list of \<open>event_call\<close>.
\<close>

record KeyboardEvent =
  key :: string
  ctrlKey :: bool
  metaKey :: bool
  altKey :: bool

datatype event_call = preventDefault | stopPropagation

text \<open>
  Of the \<^verbatim>\<open>EditorView\<close> the handler reads \<^verbatim>\<open>view.scrollDOM.classList\<close> only.
  A \<^verbatim>\<open>DOMTokenList\<close> is the list of the element's class names.
\<close>

record Element =
  classList :: "string list"

record EditorView =
  scrollDOM :: Element

definition contains :: "string list \<Rightarrow> string \<Rightarrow> bool" where
  "contains tokens t \<longleftrightarrow> t \<in> set tokens"

subsection \<open>The static tables\<close>

text \<open>\<^verbatim>\<open>const UNHANDLED_KEYS: ReadonlySet<string> = new Set(['Backspace', 'Enter'])\<close>\<close>

definition UNHANDLED_KEYS :: "string set" where
  "UNHANDLED_KEYS = {''Backspace'', ''Enter''}"

text \<open>
  An entry of \<^verbatim>\<open>UNHANDLED_COMBOS\<close> has type
  \<^verbatim>\<open>{ key: string; ctrl?: boolean; meta?: boolean; alt?: boolean }\<close>:
  an optional property that is left out reads as \<^verbatim>\<open>undefined\<close>, here \<open>None\<close>.
  The property \<^verbatim>\<open>key\<close> of a combo is named \<open>combo_key\<close>, apart from the
  event's \<open>key\<close>.
\<close>

record Combo =
  combo_key :: string
  ctrl :: "bool option"
  meta :: "bool option"
  alt :: "bool option"

definition UNHANDLED_COMBOS :: "Combo list" where
  "UNHANDLED_COMBOS = [\<lparr>combo_key = ''z'', ctrl = Some True, meta = None, alt = None\<rparr>]"

subsection \<open>Matching\<close>

text \<open>
  The arrow function given to \<^verbatim>\<open>UNHANDLED_COMBOS.some\<close> in \<^verbatim>\<open>isUnhandledCombo\<close>:
  \<^verbatim>\<open>event.key === combo.key &&
  (combo.ctrl === undefined || event.ctrlKey === combo.ctrl) && ...\<close>.
\<close>

definition combo_matches :: "KeyboardEvent \<Rightarrow> Combo \<Rightarrow> bool" where
  "combo_matches event combo \<longleftrightarrow>
     key event = combo_key combo \<and>
     (ctrl combo = None \<or> Some (ctrlKey event) = ctrl combo) \<and>
     (meta combo = None \<or> Some (metaKey event) = meta combo) \<and>
     (alt combo = None \<or> Some (altKey event) = alt combo)"

definition isUnhandledCombo :: "KeyboardEvent \<Rightarrow> bool" where
  "isUnhandledCombo event \<longleftrightarrow> list_ex (combo_matches event) UNHANDLED_COMBOS"

subsection \<open>The handler\<close>

text \<open>
  The \<^verbatim>\<open>keydown\<close> handler passed to \<^verbatim>\<open>EditorView.domEventHandlers\<close>. It returns
  the calls it made on the event, in order, and its boolean result.
\<close>

definition keydown :: "KeyboardEvent \<Rightarrow> EditorView \<Rightarrow> event_call list \<times> bool" where
  "keydown event view =
     (let isNormalOrSelect = contains (classList (scrollDOM view)) ''cm-hx-block-cursor'' in
      if \<not> isNormalOrSelect then ([], False)
      else if key event \<in> UNHANDLED_KEYS \<or> isUnhandledCombo event
        then ([preventDefault, stopPropagation], True)
      else ([], False))"

section \<open>Settings, extensions and the plugin state\<close>

subsection \<open>Settings and their persisted form\<close>

text \<open>
  \<^verbatim>\<open>HelixSettings\<close> is declared in the module \<^verbatim>\<open>src/logic\<close>;
  \<^verbatim>\<open>main.ts\<close> reads and writes two fields of it. The cursor style is a string: the
  settings tab only stores \<^verbatim>\<open>"block"\<close> or \<^verbatim>\<open>"bar"\<close>, but a loaded value is taken
  as it is.
\<close>

record HelixSettings =
  enableHelixKeybindings :: bool
  cursorInInsertMode :: string

text \<open>
  What \<^verbatim>\<open>loadData()\<close> resolves to is untyped: \<^verbatim>\<open>null\<close> when nothing was saved
  (\<open>None\<close> below), otherwise the saved object, in which either field may be missing.
\<close>

record PluginData =
  saved_enableHelixKeybindings :: "bool option"
  saved_cursorInInsertMode :: "string option"

text \<open>
  \<^verbatim>\<open>Object.assign({}, defaults, data) as HelixSettings\<close>: the own properties of
  \<open>defaults\<close> are copied first, then those of \<open>data\<close> over them; a \<^verbatim>\<open>null\<close>
  source is skipped.
\<close>

definition Object_assign :: "HelixSettings \<Rightarrow> PluginData option \<Rightarrow> HelixSettings" where
  "Object_assign defaults data =
     (case data of
        None \<Rightarrow> defaults
      | Some d \<Rightarrow>
          \<lparr>enableHelixKeybindings =
             (case saved_enableHelixKeybindings d of
                None \<Rightarrow> enableHelixKeybindings defaults | Some b \<Rightarrow> b),
           cursorInInsertMode =
             (case saved_cursorInInsertMode d of
                None \<Rightarrow> cursorInInsertMode defaults | Some c \<Rightarrow> c)\<rparr>)"

subsection \<open>Editor extensions\<close>

text \<open>
  The values \<^verbatim>\<open>main.ts\<close> puts into its extension array: the result of
  \<^verbatim>\<open>helix({config: {"editor.cursor-shape.insert": c}})\<close>, the result of
  \<^verbatim>\<open>EditorView.domEventHandlers({...})\<close> (the handlers by event name), and either
  wrapped by \<^verbatim>\<open>Prec.high\<close> or \<^verbatim>\<open>Prec.highest\<close>. \<open>Foreign\<close> stands for an
  extension value built elsewhere.
\<close>

record HelixConfig =
  editor_cursor_shape_insert :: string

type_synonym handler = "KeyboardEvent \<Rightarrow> EditorView \<Rightarrow> event_call list \<times> bool"

datatype Extension =
    Foreign string
  | helix HelixConfig
  | domEventHandlers "(string \<times> handler) list"
  | Prec_high Extension
  | Prec_highest Extension

datatype precedence = High | Highest

fun prec_of :: "Extension \<Rightarrow> precedence option" where
  "prec_of (Prec_high e) = Some High"
| "prec_of (Prec_highest e) = Some Highest"
| "prec_of e = None"

text \<open>
  The two constants \<^verbatim>\<open>main.ts\<close> imports from \<^verbatim>\<open>src/logic\<close>. Their values
  are not fixed here: every function that uses one of them takes the module as a
  parameter.
\<close>

record logic =
  DEFAULT_EDITOR_VIEW :: Extension
  DEFAULT_SETTINGS :: HelixSettings

subsection \<open>State\<close>

text \<open>
  \<^verbatim>\<open>this.extensions\<close> is a reference to an array that the host is given too, so arrays
  live in a store: \<open>arrays\<close> maps an address to the array's content and
  \<open>next_addr\<close> is the next address to allocate. \<open>settings\<close> and \<open>extensions\<close> are
  the two fields of \<^verbatim>\<open>HelixPlugin\<close>; both are assigned in \<^verbatim>\<open>onload\<close> before they
  are first read. The rest is the host: \<open>data\<close> is what the plugin last saved,
  \<open>editorExtensions\<close> the references passed to \<^verbatim>\<open>registerEditorExtension\<close>, and
  \<open>calls\<close> the other host calls made so far, in order.

  Every \<^verbatim>\<open>await\<close> is modelled as a plain call: one method runs to its end before the
  next starts.
\<close>

type_synonym addr = nat

datatype host_call =
    SaveData HelixSettings
  | UpdateOptions
  | NewNotice string
  | AddSettingTab
  | AddCommand string string

record state =
  settings :: HelixSettings
  extensions :: addr
  arrays :: "addr \<Rightarrow> Extension list"
  next_addr :: addr
  data :: "PluginData option"
  editorExtensions :: "addr list"
  calls :: "host_call list"

subsection \<open>Host and array operations\<close>

text \<open>\<^verbatim>\<open>this.saveData(s)\<close> stores the fields of \<open>s\<close>; \<^verbatim>\<open>this.loadData()\<close> reads them back.\<close>

definition saveData :: "HelixSettings \<Rightarrow> state \<Rightarrow> state" where
  "saveData s w =
     w\<lparr>data := Some \<lparr>saved_enableHelixKeybindings = Some (enableHelixKeybindings s),
                       saved_cursorInInsertMode = Some (cursorInInsertMode s)\<rparr>,
       calls := calls w @ [SaveData s]\<rparr>"

definition loadData :: "state \<Rightarrow> PluginData option" where
  "loadData w = data w"

definition updateOptions :: "state \<Rightarrow> state" where
  "updateOptions w = w\<lparr>calls := calls w @ [UpdateOptions]\<rparr>"

definition new_Notice :: "string \<Rightarrow> state \<Rightarrow> state" where
  "new_Notice msg w = w\<lparr>calls := calls w @ [NewNotice msg]\<rparr>"

definition addSettingTab :: "state \<Rightarrow> state" where
  "addSettingTab w = w\<lparr>calls := calls w @ [AddSettingTab]\<rparr>"

definition addCommand :: "string \<Rightarrow> string \<Rightarrow> state \<Rightarrow> state" where
  "addCommand ident name w = w\<lparr>calls := calls w @ [AddCommand ident name]\<rparr>"

definition registerEditorExtension :: "addr \<Rightarrow> state \<Rightarrow> state" where
  "registerEditorExtension a w = w\<lparr>editorExtensions := editorExtensions w @ [a]\<rparr>"

text \<open>The array literal \<^verbatim>\<open>[]\<close>: a new, empty array at a new address.\<close>

definition new_array :: "state \<Rightarrow> addr \<times> state" where
  "new_array w =
     (next_addr w, w\<lparr>arrays := (arrays w)(next_addr w := []), next_addr := Suc (next_addr w)\<rparr>)"

text \<open>\<^verbatim>\<open>a.length = 0\<close> and \<^verbatim>\<open>a.push(x)\<close> change the array at \<open>a\<close> in place.\<close>

definition set_length_0 :: "addr \<Rightarrow> state \<Rightarrow> state" where
  "set_length_0 a w = w\<lparr>arrays := (arrays w)(a := [])\<rparr>"

definition push :: "addr \<Rightarrow> Extension \<Rightarrow> state \<Rightarrow> state" where
  "push a x w = w\<lparr>arrays := (arrays w)(a := arrays w a @ [x])\<rparr>"

subsection \<open>The methods of \<^verbatim>\<open>HelixPlugin\<close>\<close>

definition loadSettings :: "logic \<Rightarrow> state \<Rightarrow> state" where
  "loadSettings L w = w\<lparr>settings := Object_assign (DEFAULT_SETTINGS L) (loadData w)\<rparr>"

definition saveSettings :: "state \<Rightarrow> state" where
  "saveSettings w = saveData (settings w) w"

text \<open>
  \<^verbatim>\<open>setEnabled(value, reload = true, print = false)\<close>. The model takes the three
  arguments; a caller that leaves one out passes its default.
\<close>

definition setEnabled :: "logic \<Rightarrow> bool \<Rightarrow> bool \<Rightarrow> bool \<Rightarrow> state \<Rightarrow> state" where
  "setEnabled L value reload print w0 =
     (let w = w0\<lparr>settings := (settings w0)\<lparr>enableHelixKeybindings := value\<rparr>\<rparr>;
          w = set_length_0 (extensions w) w;
          w = (if value then
                 (let w = push (extensions w) (Prec_high (DEFAULT_EDITOR_VIEW L)) w;
                      w = push (extensions w)
                            (Prec_high (helix
                               \<lparr>editor_cursor_shape_insert = cursorInInsertMode (settings w)\<rparr>)) w;
                      w = push (extensions w)
                            (Prec_highest (domEventHandlers [(''keydown'', keydown)])) w
                  in w)
               else w);
          w = saveSettings w;
          w = (if reload then updateOptions w else w);
          w = (if print then
                 (let msg = (if value then ''Enabled'' else ''Disabled'')
                  in new_Notice (msg @ '' Helix keybindings'') w)
               else w)
      in w)"

definition reload :: "logic \<Rightarrow> state \<Rightarrow> state" where
  "reload L w = setEnabled L (enableHelixKeybindings (settings w)) True False w"

text \<open>The callback of the command \<^verbatim>\<open>toggle-keybindings\<close> registered in \<^verbatim>\<open>onload\<close>.\<close>

definition toggle_keybindings :: "logic \<Rightarrow> state \<Rightarrow> state" where
  "toggle_keybindings L w = setEnabled L (\<not> enableHelixKeybindings (settings w)) True True w"

definition onload :: "logic \<Rightarrow> state \<Rightarrow> state" where
  "onload L w0 =
     (let w = loadSettings L w0;
          (a, w) = new_array w;
          w = w\<lparr>extensions := a\<rparr>;
          w = addSettingTab w;
          w = setEnabled L (enableHelixKeybindings (settings w)) False False w;
          w = registerEditorExtension (extensions w) w;
          w = addCommand ''toggle-keybindings'' ''Toggle helix mode'' w
      in w)"

subsection \<open>The callbacks of \<^verbatim>\<open>HelixSettingsTab\<close>\<close>

text \<open>The toggle's \<^verbatim>\<open>onChange\<close>: \<^verbatim>\<open>this.plugin.setEnabled(value)\<close>.\<close>

definition toggle_onChange :: "logic \<Rightarrow> bool \<Rightarrow> state \<Rightarrow> state" where
  "toggle_onChange L value w = setEnabled L value True False w"

text \<open>The dropdown's \<^verbatim>\<open>onChange\<close>.\<close>

definition dropDown_onChange :: "logic \<Rightarrow> string \<Rightarrow> state \<Rightarrow> state" where
  "dropDown_onChange L value w0 =
     (if value = ''block'' \<or> value = ''bar'' then
        (let w = w0\<lparr>settings := (settings w0)\<lparr>cursorInInsertMode := value\<rparr>\<rparr>;
             w = saveSettings w;
             w = reload L w
         in w)
      else w0)"

subsection \<open>Runs of the plugin after \<^verbatim>\<open>onload\<close>\<close>

text \<open>
  What can happen to a loaded plugin: a call of \<^verbatim>\<open>setEnabled\<close> with any arguments, of
  \<^verbatim>\<open>reload\<close> or of \<^verbatim>\<open>saveSettings\<close>, the command, and the two controls of the
  settings tab.
\<close>

datatype action =
    SetEnabled bool bool bool
  | Reload
  | SaveSettings
  | ToggleCommand
  | ToggleChange bool
  | DropDownChange string

fun step :: "logic \<Rightarrow> action \<Rightarrow> state \<Rightarrow> state" where
  "step L (SetEnabled value rl pr) w = setEnabled L value rl pr w"
| "step L Reload w = reload L w"
| "step L SaveSettings w = saveSettings w"
| "step L ToggleCommand w = toggle_keybindings L w"
| "step L (ToggleChange value) w = toggle_onChange L value w"
| "step L (DropDownChange value) w = dropDown_onChange L value w"

fun run :: "logic \<Rightarrow> action list \<Rightarrow> state \<Rightarrow> state" where
  "run L [] w = w"
| "run L (a # as) w = run L as (step L a w)"

text \<open>The array the plugin holds, and the arrays the host reaches through its references.\<close>

definition extension_set :: "state \<Rightarrow> Extension list" where
  "extension_set w = arrays w (extensions w)"

definition host_view :: "state \<Rightarrow> Extension list list" where
  "host_view w = map (arrays w) (editorExtensions w)"

text \<open>The host calls made between an earlier state and a later one.\<close>

definition calls_since :: "state \<Rightarrow> state \<Rightarrow> host_call list" where
  "calls_since w w' = drop (length (calls w)) (calls w')"

fun is_SaveData :: "host_call \<Rightarrow> bool" where
  "is_SaveData (SaveData s) = True"
| "is_SaveData c = False"

fun is_NewNotice :: "host_call \<Rightarrow> bool" where
  "is_NewNotice (NewNotice m) = True"
| "is_NewNotice c = False"

text \<open>
  The array content that \<^verbatim>\<open>setEnabled\<close> builds from given settings: the three entries
  when the keybindings are enabled, nothing otherwise.
\<close>

definition built_extensions :: "logic \<Rightarrow> HelixSettings \<Rightarrow> Extension list" where
  "built_extensions L s =
     (if enableHelixKeybindings s then
        [Prec_high (DEFAULT_EDITOR_VIEW L),
         Prec_high (helix \<lparr>editor_cursor_shape_insert = cursorInInsertMode s\<rparr>),
         Prec_highest (domEventHandlers [(''keydown'', keydown)])]
      else [])"

section \<open>Auxiliary facts\<close>

subsection \<open>The interceptor\<close>

lemma isUnhandledCombo_iff:
  "isUnhandledCombo event \<longleftrightarrow> key event = ''z'' \<and> ctrlKey event"
  by (auto simp add: isUnhandledCombo_def UNHANDLED_COMBOS_def combo_matches_def)

lemma keydown_result:
  "snd (keydown event view) \<longleftrightarrow>
     contains (classList (scrollDOM view)) ''cm-hx-block-cursor'' \<and>
     (key event \<in> UNHANDLED_KEYS \<or> isUnhandledCombo event)"
  by (simp add: keydown_def Let_def)

subsection \<open>What one call of \<^verbatim>\<open>setEnabled\<close> changes\<close>

lemma setEnabled_fields:
  "settings (setEnabled L v rl pr w) = (settings w)\<lparr>enableHelixKeybindings := v\<rparr>"
  "extensions (setEnabled L v rl pr w) = extensions w"
  "next_addr (setEnabled L v rl pr w) = next_addr w"
  "editorExtensions (setEnabled L v rl pr w) = editorExtensions w"
  by (simp_all add: setEnabled_def Let_def set_length_0_def push_def saveSettings_def
      saveData_def updateOptions_def new_Notice_def)

lemma setEnabled_arrays:
  "arrays (setEnabled L v rl pr w) =
     (arrays w)(extensions w :=
        (if v then
           [Prec_high (DEFAULT_EDITOR_VIEW L),
            Prec_high (helix \<lparr>editor_cursor_shape_insert = cursorInInsertMode (settings w)\<rparr>),
            Prec_highest (domEventHandlers [(''keydown'', keydown)])]
         else []))"
  by (simp add: setEnabled_def Let_def set_length_0_def push_def saveSettings_def
      saveData_def updateOptions_def new_Notice_def)

lemma setEnabled_calls:
  "calls (setEnabled L v rl pr w) =
     calls w @ [SaveData ((settings w)\<lparr>enableHelixKeybindings := v\<rparr>)]
       @ (if rl then [UpdateOptions] else [])
       @ (if pr then [NewNotice (if v then ''Enabled Helix keybindings''
                                  else ''Disabled Helix keybindings'')] else [])"
  by (simp add: setEnabled_def Let_def set_length_0_def push_def saveSettings_def
      saveData_def updateOptions_def new_Notice_def)

lemma setEnabled_data:
  "data (setEnabled L v rl pr w) =
     Some \<lparr>saved_enableHelixKeybindings = Some v,
           saved_cursorInInsertMode = Some (cursorInInsertMode (settings w))\<rparr>"
  by (simp add: setEnabled_def Let_def set_length_0_def push_def saveSettings_def
      saveData_def updateOptions_def new_Notice_def)

lemma setEnabled_built:
  "arrays (setEnabled L v rl pr w) =
     (arrays w)(extensions w := built_extensions L (settings (setEnabled L v rl pr w)))"
  by (simp add: setEnabled_arrays setEnabled_fields built_extensions_def)

lemma saveSettings_fields:
  "settings (saveSettings w) = settings w"
  "extensions (saveSettings w) = extensions w"
  "next_addr (saveSettings w) = next_addr w"
  "editorExtensions (saveSettings w) = editorExtensions w"
  "arrays (saveSettings w) = arrays w"
  by (simp_all add: saveSettings_def saveData_def)

subsection \<open>Runs\<close>

text \<open>
  No action assigns \<^verbatim>\<open>this.extensions\<close>, allocates an array or registers a reference, and
  each keeps the array at \<^verbatim>\<open>this.extensions\<close> equal to what the settings ask for.
\<close>

lemma step_fields:
  "extensions (step L a w) = extensions w"
  "next_addr (step L a w) = next_addr w"
  "editorExtensions (step L a w) = editorExtensions w"
  by (cases a; simp add: reload_def toggle_keybindings_def toggle_onChange_def
      dropDown_onChange_def Let_def setEnabled_fields saveSettings_fields)+

lemma step_arrays:
  assumes "arrays w (extensions w) = built_extensions L (settings w)"
  shows "arrays (step L a w) =
           (arrays w)(extensions w := built_extensions L (settings (step L a w)))"
proof (cases a)
  case SaveSettings
  with assms show ?thesis by (simp add: saveSettings_fields fun_upd_idem)
next
  case (DropDownChange c)
  with assms show ?thesis
    by (simp add: dropDown_onChange_def Let_def reload_def setEnabled_built
        setEnabled_fields saveSettings_fields fun_upd_idem)
qed (simp_all add: reload_def toggle_keybindings_def toggle_onChange_def setEnabled_built)

lemma run_fields:
  "extensions (run L acts w) = extensions w"
  "next_addr (run L acts w) = next_addr w"
  "editorExtensions (run L acts w) = editorExtensions w"
  by (induction acts arbitrary: w; simp add: step_fields)+

lemma run_arrays:
  "arrays w (extensions w) = built_extensions L (settings w) \<Longrightarrow>
   arrays (run L acts w) =
     (arrays w)(extensions w := built_extensions L (settings (run L acts w)))"
proof (induction acts arbitrary: w)
  case Nil
  then show ?case by (simp add: fun_upd_idem)
next
  case (Cons a acts)
  have s: "arrays (step L a w) =
      (arrays w)(extensions w := built_extensions L (settings (step L a w)))"
    using Cons.prems by (rule step_arrays)
  then have "arrays (step L a w) (extensions (step L a w)) =
      built_extensions L (settings (step L a w))"
    by (simp add: step_fields)
  from Cons.IH [OF this]
  have "arrays (run L acts (step L a w)) =
      (arrays (step L a w))(extensions w := built_extensions L (settings (run L acts (step L a w))))"
    by (simp only: step_fields)
  then show ?case
    by (simp only: run.simps s fun_upd_upd)
qed

lemma onload_fields:
  "extensions (onload L w0) = next_addr w0"
  "next_addr (onload L w0) = Suc (next_addr w0)"
  "editorExtensions (onload L w0) = editorExtensions w0 @ [next_addr w0]"
  by (simp_all add: onload_def Let_def loadSettings_def new_array_def addSettingTab_def
      registerEditorExtension_def addCommand_def setEnabled_fields)

lemma onload_arrays:
  "arrays (onload L w0) =
     (arrays w0)(next_addr w0 := built_extensions L (settings (onload L w0)))"
  by (simp add: onload_def Let_def loadSettings_def new_array_def addSettingTab_def
      registerEditorExtension_def addCommand_def setEnabled_fields setEnabled_built)

section \<open>The claims\<close>

subsection \<open>The interceptor\<close>

text \<open>
  \<^bold>\<open>C1.\<close> The handler returns \<open>True\<close> exactly when the marker class
  \<^verbatim>\<open>cm-hx-block-cursor\<close> is on the scroll element and the event's key is
  \<^verbatim>\<open>Backspace\<close> or \<^verbatim>\<open>Enter\<close> or some entry of \<open>UNHANDLED_COMBOS\<close> matches the
  event. So it returns \<open>False\<close> whenever the marker is missing, and for every other key
  or combination.
\<close>

theorem keydown_decision:
  "snd (keydown event view) \<longleftrightarrow>
     ''cm-hx-block-cursor'' \<in> set (classList (scrollDOM view)) \<and>
     (key event \<in> {''Backspace'', ''Enter''} \<or>
      (\<exists>combo \<in> set UNHANDLED_COMBOS. combo_matches event combo))"
  by (simp add: keydown_def Let_def contains_def UNHANDLED_KEYS_def isUnhandledCombo_def
      list_ex_iff)

theorem keydown_decision_witness:
  "snd (keydown \<lparr>key = ''z'', ctrlKey = True, metaKey = False, altKey = False\<rparr>
          \<lparr>scrollDOM = \<lparr>classList = [''cm-scroller'', ''cm-hx-block-cursor'']\<rparr>\<rparr>) \<and>
   snd (keydown \<lparr>key = ''Enter'', ctrlKey = False, metaKey = False, altKey = False\<rparr>
          \<lparr>scrollDOM = \<lparr>classList = [''cm-scroller'', ''cm-hx-block-cursor'']\<rparr>\<rparr>) \<and>
   \<not> snd (keydown \<lparr>key = ''z'', ctrlKey = False, metaKey = False, altKey = False\<rparr>
          \<lparr>scrollDOM = \<lparr>classList = [''cm-scroller'', ''cm-hx-block-cursor'']\<rparr>\<rparr>) \<and>
   \<not> snd (keydown \<lparr>key = ''Enter'', ctrlKey = False, metaKey = False, altKey = False\<rparr>
          \<lparr>scrollDOM = \<lparr>classList = [''cm-scroller'']\<rparr>\<rparr>)"
  using
    keydown_decision [of "\<lparr>key = ''z'', ctrlKey = True, metaKey = False, altKey = False\<rparr>"
      "\<lparr>scrollDOM = \<lparr>classList = [''cm-scroller'', ''cm-hx-block-cursor'']\<rparr>\<rparr>"]
    keydown_decision [of "\<lparr>key = ''Enter'', ctrlKey = False, metaKey = False, altKey = False\<rparr>"
      "\<lparr>scrollDOM = \<lparr>classList = [''cm-scroller'', ''cm-hx-block-cursor'']\<rparr>\<rparr>"]
    keydown_decision [of "\<lparr>key = ''z'', ctrlKey = False, metaKey = False, altKey = False\<rparr>"
      "\<lparr>scrollDOM = \<lparr>classList = [''cm-scroller'', ''cm-hx-block-cursor'']\<rparr>\<rparr>"]
    keydown_decision [of "\<lparr>key = ''Enter'', ctrlKey = False, metaKey = False, altKey = False\<rparr>"
      "\<lparr>scrollDOM = \<lparr>classList = [''cm-scroller'']\<rparr>\<rparr>"]
  by (simp add: UNHANDLED_COMBOS_def combo_matches_def)

text \<open>
  \<^bold>\<open>C2.\<close> A combo matches an event exactly when the keys are equal and each
  modifier the combo gives (\<open>ctrl\<close>, \<open>meta\<close>, \<open>alt\<close>) equals the event's; a modifier the
  combo leaves out is not looked at. The configured list is the single combo
  \<^verbatim>\<open>{key: 'z', ctrl: true}\<close>: with the marker present, every event with key \<^verbatim>\<open>z\<close>
  and \<^verbatim>\<open>ctrlKey\<close> set is suppressed whatever \<^verbatim>\<open>altKey\<close> and \<^verbatim>\<open>metaKey\<close> are, and
  every event with key \<^verbatim>\<open>z\<close> and \<^verbatim>\<open>ctrlKey\<close> unset is not suppressed, with the
  marker or without.
\<close>

theorem combo_rule_matching:
  "(combo_matches event combo \<longleftrightarrow>
      key event = combo_key combo \<and>
      (\<forall>b. ctrl combo = Some b \<longrightarrow> ctrlKey event = b) \<and>
      (\<forall>b. meta combo = Some b \<longrightarrow> metaKey event = b) \<and>
      (\<forall>b. alt combo = Some b \<longrightarrow> altKey event = b)) \<and>
   UNHANDLED_COMBOS = [\<lparr>combo_key = ''z'', ctrl = Some True, meta = None, alt = None\<rparr>] \<and>
   (''cm-hx-block-cursor'' \<in> set (classList (scrollDOM view)) \<and>
      key ez = ''z'' \<and> ctrlKey ez \<longrightarrow> snd (keydown ez view)) \<and>
   (key en = ''z'' \<and> \<not> ctrlKey en \<longrightarrow> \<not> snd (keydown en view))"
proof -
  have rule: "combo_matches event combo \<longleftrightarrow>
      key event = combo_key combo \<and>
      (\<forall>b. ctrl combo = Some b \<longrightarrow> ctrlKey event = b) \<and>
      (\<forall>b. meta combo = Some b \<longrightarrow> metaKey event = b) \<and>
      (\<forall>b. alt combo = Some b \<longrightarrow> altKey event = b)"
    unfolding combo_matches_def by (cases "ctrl combo"; cases "meta combo"; cases "alt combo") auto
  have yes: "''cm-hx-block-cursor'' \<in> set (classList (scrollDOM view)) \<and>
      key ez = ''z'' \<and> ctrlKey ez \<longrightarrow> snd (keydown ez view)"
    by (simp add: keydown_result contains_def isUnhandledCombo_iff)
  have no: "key en = ''z'' \<and> \<not> ctrlKey en \<longrightarrow> \<not> snd (keydown en view)"
    by (simp add: keydown_result contains_def isUnhandledCombo_iff UNHANDLED_KEYS_def)
  from rule yes no show ?thesis
    by (simp only: UNHANDLED_COMBOS_def simp_thms)
qed

theorem combo_rule_matching_witness:
  "combo_matches \<lparr>key = ''z'', ctrlKey = True, metaKey = False, altKey = True\<rparr>
     \<lparr>combo_key = ''z'', ctrl = Some True, meta = None, alt = None\<rparr> \<and>
   snd (keydown \<lparr>key = ''z'', ctrlKey = True, metaKey = True, altKey = True\<rparr>
          \<lparr>scrollDOM = \<lparr>classList = [''cm-hx-block-cursor'']\<rparr>\<rparr>) \<and>
   \<not> snd (keydown \<lparr>key = ''z'', ctrlKey = False, metaKey = True, altKey = True\<rparr>
          \<lparr>scrollDOM = \<lparr>classList = [''cm-hx-block-cursor'']\<rparr>\<rparr>)"
  using combo_rule_matching
    [of "\<lparr>key = ''z'', ctrlKey = True, metaKey = False, altKey = True\<rparr>"
        "\<lparr>combo_key = ''z'', ctrl = Some True, meta = None, alt = None\<rparr>"
        "\<lparr>scrollDOM = \<lparr>classList = [''cm-hx-block-cursor'']\<rparr>\<rparr>"
        "\<lparr>key = ''z'', ctrlKey = True, metaKey = True, altKey = True\<rparr>"
        "\<lparr>key = ''z'', ctrlKey = False, metaKey = True, altKey = True\<rparr>"]
  by simp

text \<open>
  \<^bold>\<open>C3.\<close> Fail-open: when the marker class is not on the scroll element, the
  handler returns \<open>False\<close> and makes no call on the event, whatever the event is; the
  example is \<^verbatim>\<open>z\<close> with \<^verbatim>\<open>ctrlKey\<close>.
\<close>

theorem fail_open:
  "''cm-hx-block-cursor'' \<notin> set (classList (scrollDOM view)) \<Longrightarrow>
     keydown event view = ([], False)"
  by (simp add: keydown_def Let_def contains_def)

theorem fail_open_witness:
  "''cm-hx-block-cursor'' \<notin> set (classList (scrollDOM \<lparr>scrollDOM = \<lparr>classList = [''cm-scroller'']\<rparr>\<rparr>)) \<and>
   keydown \<lparr>key = ''z'', ctrlKey = True, metaKey = False, altKey = False\<rparr>
     \<lparr>scrollDOM = \<lparr>classList = [''cm-scroller'']\<rparr>\<rparr> = ([], False)"
  using fail_open [of "\<lparr>scrollDOM = \<lparr>classList = [''cm-scroller'']\<rparr>\<rparr>"
      "\<lparr>key = ''z'', ctrlKey = True, metaKey = False, altKey = False\<rparr>"]
  by simp

text \<open>
  \<^bold>\<open>C5.\<close> When the handler returns \<open>True\<close> it has called
  \<^verbatim>\<open>preventDefault\<close> and then \<^verbatim>\<open>stopPropagation\<close> on the event, in this order and
  nothing else; when it returns \<open>False\<close> it has called neither.
\<close>

theorem suppress_side_effects:
  "fst (keydown event view) =
     (if snd (keydown event view) then [preventDefault, stopPropagation] else [])"
  by (simp add: keydown_def Let_def)

subsection \<open>Enabling and disabling\<close>

text \<open>
  \<^bold>\<open>C4.\<close> After \<^verbatim>\<open>setEnabled(true, ...)\<close> the extension array holds exactly
  three entries, whatever it held before: \<^verbatim>\<open>DEFAULT_EDITOR_VIEW\<close> at high precedence, then
  the Helix extension configured with the current \<open>cursorInInsertMode\<close> at high
  precedence, then the keydown interceptor, the only entry at highest precedence. After
  \<^verbatim>\<open>setEnabled(false, ...)\<close> the array is empty.
\<close>

theorem setEnabled_extension_set:
  "extension_set (setEnabled L True rl pr w) =
     [Prec_high (DEFAULT_EDITOR_VIEW L),
      Prec_high (helix \<lparr>editor_cursor_shape_insert = cursorInInsertMode (settings w)\<rparr>),
      Prec_highest (domEventHandlers [(''keydown'', keydown)])] \<and>
   map prec_of (extension_set (setEnabled L True rl pr w)) =
     [Some High, Some High, Some Highest] \<and>
   extension_set (setEnabled L False rl pr w) = []"
  by (simp add: extension_set_def setEnabled_fields setEnabled_arrays)

text \<open>
  \<^bold>\<open>C6.\<close> Calling \<^verbatim>\<open>setEnabled(true)\<close> twice in a row leaves the same
  extension array, with the same content in the same order, as calling it once.
\<close>

theorem setEnabled_idempotent:
  "extension_set (setEnabled L True rl' pr' (setEnabled L True rl pr w)) =
     extension_set (setEnabled L True rl pr w) \<and>
   arrays (setEnabled L True rl' pr' (setEnabled L True rl pr w)) =
     arrays (setEnabled L True rl pr w) \<and>
   extensions (setEnabled L True rl' pr' (setEnabled L True rl pr w)) =
     extensions (setEnabled L True rl pr w)"
  by (simp add: extension_set_def setEnabled_fields setEnabled_arrays)

text \<open>
  \<^bold>\<open>C8.\<close> Every call \<^verbatim>\<open>setEnabled(value, reload, print)\<close> makes these host
  calls and no others: \<^verbatim>\<open>saveData\<close> once, with the updated settings, whatever
  \<open>value\<close> is; then \<^verbatim>\<open>updateOptions\<close> exactly when \<open>reload\<close> is set; then a notice
  exactly when \<open>print\<close> is set, with the text \<^verbatim>\<open>Enabled Helix keybindings\<close> for
  \<open>value = True\<close> and \<^verbatim>\<open>Disabled Helix keybindings\<close> otherwise.
\<close>

theorem setEnabled_host_calls:
  "calls (setEnabled L value rl pr w) = calls w @ calls_since w (setEnabled L value rl pr w) \<and>
   calls_since w (setEnabled L value rl pr w) =
     SaveData ((settings w)\<lparr>enableHelixKeybindings := value\<rparr>)
       # (if rl then [UpdateOptions] else [])
       @ (if pr then [NewNotice (if value then ''Enabled Helix keybindings''
                                  else ''Disabled Helix keybindings'')] else []) \<and>
   length (filter is_SaveData (calls_since w (setEnabled L value rl pr w))) = 1 \<and>
   (UpdateOptions \<in> set (calls_since w (setEnabled L value rl pr w)) \<longleftrightarrow> rl) \<and>
   (NewNotice (if value then ''Enabled Helix keybindings'' else ''Disabled Helix keybindings'')
      \<in> set (calls_since w (setEnabled L value rl pr w)) \<longleftrightarrow> pr) \<and>
   filter is_NewNotice (calls_since w (setEnabled L value rl pr w)) =
     (if pr then [NewNotice (if value then ''Enabled Helix keybindings''
                              else ''Disabled Helix keybindings'')] else []) \<and>
   data (setEnabled L value rl pr w) =
     Some \<lparr>saved_enableHelixKeybindings = Some value,
           saved_cursorInInsertMode = Some (cursorInInsertMode (settings w))\<rparr>"
  by (simp add: calls_since_def setEnabled_calls setEnabled_data)

text \<open>
  \<^bold>\<open>C9.\<close> \<^verbatim>\<open>setEnabled\<close> changes one field of the settings,
  \<open>enableHelixKeybindings\<close>, which becomes \<open>value\<close>; \<open>cursorInInsertMode\<close> is read
  and stays as it was.
\<close>

theorem setEnabled_settings_frame:
  "settings (setEnabled L value rl pr w) = (settings w)\<lparr>enableHelixKeybindings := value\<rparr> \<and>
   enableHelixKeybindings (settings (setEnabled L value rl pr w)) = value \<and>
   cursorInInsertMode (settings (setEnabled L value rl pr w)) = cursorInInsertMode (settings w)"
  by (simp add: setEnabled_fields)

subsection \<open>Persistence\<close>

text \<open>
  \<^bold>\<open>C7.\<close> Round trip: saving any settings \<open>s\<close> with \<^verbatim>\<open>saveSettings\<close> and
  then loading with \<^verbatim>\<open>loadSettings\<close> gives \<open>s\<close> back, for any defaults and whatever
  the settings in memory are when the load runs (\<open>s'\<close> below); so does a whole
  \<^verbatim>\<open>onload\<close>, the one caller of \<^verbatim>\<open>loadSettings\<close>. Loading merges field by field: a
  saved object with both fields gives these two fields, with nothing saved the defaults
  are taken, and a saved object that lacks a field takes that field from the defaults.
\<close>

theorem save_load_roundtrip:
  "settings (loadSettings L ((saveSettings (w\<lparr>settings := s\<rparr>))\<lparr>settings := s'\<rparr>)) = s \<and>
   settings (onload L ((saveSettings (w\<lparr>settings := s\<rparr>))\<lparr>settings := s'\<rparr>)) = s \<and>
   settings (loadSettings L
      (w\<lparr>data := Some \<lparr>saved_enableHelixKeybindings = Some b, saved_cursorInInsertMode = Some c\<rparr>\<rparr>)) =
     \<lparr>enableHelixKeybindings = b, cursorInInsertMode = c\<rparr> \<and>
   settings (loadSettings L (w\<lparr>data := None\<rparr>)) = DEFAULT_SETTINGS L \<and>
   settings (loadSettings L
      (w\<lparr>data := Some \<lparr>saved_enableHelixKeybindings = Some b, saved_cursorInInsertMode = None\<rparr>\<rparr>)) =
     (DEFAULT_SETTINGS L)\<lparr>enableHelixKeybindings := b\<rparr> \<and>
   settings (loadSettings L
      (w\<lparr>data := Some \<lparr>saved_enableHelixKeybindings = None, saved_cursorInInsertMode = Some c\<rparr>\<rparr>)) =
     (DEFAULT_SETTINGS L)\<lparr>cursorInInsertMode := c\<rparr>"
proof -
  have load: "settings (loadSettings L v) = Object_assign (DEFAULT_SETTINGS L) (data v)" for v
    by (simp add: loadSettings_def loadData_def)
  have saved: "data ((saveSettings (w\<lparr>settings := s\<rparr>))\<lparr>settings := s'\<rparr>) =
      Some \<lparr>saved_enableHelixKeybindings = Some (enableHelixKeybindings s),
            saved_cursorInInsertMode = Some (cursorInInsertMode s)\<rparr>"
    by (simp add: saveSettings_def saveData_def)
  have merge: "Object_assign (DEFAULT_SETTINGS L)
      (Some \<lparr>saved_enableHelixKeybindings = Some (enableHelixKeybindings s),
             saved_cursorInInsertMode = Some (cursorInInsertMode s)\<rparr>) = s"
    by (simp add: Object_assign_def)
  have on: "settings (onload L v) = Object_assign (DEFAULT_SETTINGS L) (data v)" for v
    by (simp add: onload_def Let_def new_array_def addSettingTab_def
        registerEditorExtension_def addCommand_def setEnabled_fields load)
  show ?thesis
    by (simp add: load on saved merge) (simp add: Object_assign_def)
qed

subsection \<open>The shared extension array\<close>

text \<open>
  \<^bold>\<open>C10.\<close> \<^verbatim>\<open>onload\<close> creates the extension array and hands its reference
  to the host. After that, over every sequence of actions, \<^verbatim>\<open>this.extensions\<close> is
  still that reference, the host's list of references is unchanged, no other array is
  allocated, and the store differs from the one after \<^verbatim>\<open>onload\<close> at that one address
  only. So the array the host reaches through its reference is the plugin's current
  extension set, which is what the current settings ask for. Each single
  \<^verbatim>\<open>setEnabled\<close> call keeps the reference and changes the store at it alone.
\<close>

theorem extensions_reference_stable:
  "extensions (onload L w0) = next_addr w0 \<and>
   editorExtensions (onload L w0) = editorExtensions w0 @ [extensions (onload L w0)] \<and>
   extensions (run L acts (onload L w0)) = extensions (onload L w0) \<and>
   editorExtensions (run L acts (onload L w0)) = editorExtensions (onload L w0) \<and>
   next_addr (run L acts (onload L w0)) = next_addr (onload L w0) \<and>
   arrays (run L acts (onload L w0)) =
     (arrays (onload L w0))
       (extensions (onload L w0) := extension_set (run L acts (onload L w0))) \<and>
   last (host_view (run L acts (onload L w0))) = extension_set (run L acts (onload L w0)) \<and>
   extension_set (run L acts (onload L w0)) =
     built_extensions L (settings (run L acts (onload L w0))) \<and>
   extensions (setEnabled L value rl pr w) = extensions w \<and>
   next_addr (setEnabled L value rl pr w) = next_addr w \<and>
   arrays (setEnabled L value rl pr w) =
     (arrays w)(extensions w := extension_set (setEnabled L value rl pr w))"
proof -
  let ?w1 = "onload L w0"
  have inv: "arrays ?w1 (extensions ?w1) = built_extensions L (settings ?w1)"
    by (simp add: onload_fields onload_arrays)
  have arr: "arrays (run L acts ?w1) =
      (arrays ?w1)(extensions ?w1 := built_extensions L (settings (run L acts ?w1)))"
    using inv by (rule run_arrays)
  then have ext: "extension_set (run L acts ?w1) = built_extensions L (settings (run L acts ?w1))"
    by (simp add: extension_set_def run_fields)
  have hv: "last (host_view (run L acts ?w1)) = extension_set (run L acts ?w1)"
    by (simp add: host_view_def extension_set_def run_fields onload_fields)
  have se: "arrays (setEnabled L value rl pr w) =
     (arrays w)(extensions w := extension_set (setEnabled L value rl pr w))"
    by (simp add: extension_set_def setEnabled_fields setEnabled_arrays)
  show ?thesis
    using arr ext hv se by (simp add: run_fields onload_fields setEnabled_fields)
qed


end
